theory Spec2Isabelle
  imports Complex_Main
begin

section \<open>The ingestion and retrieval core of \<^verbatim>\<open>main.py\<close>\<close>

text \<open>
  The module keeps two pieces of mutable state: the global \<^verbatim>\<open>collection\<close> (the handle of
  the Chroma collection, or \<^verbatim>\<open>None\<close> when the credentials are missing or the client
  could not be created) and the global list \<^verbatim>\<open>added_sources\<close>. Every route handler is
  embedded as a function from the state before the request to the state after it and
  the handler's outcome: \<open>Inr\<close> the returned value, \<open>Inl\<close> the exception raised.

  Strings are lists of characters; a character stands for a code point below 256.
\<close>

subsection \<open>Data\<close>

text \<open>
  One record of the collection, as \<^verbatim>\<open>collection.add\<close> receives it: id, embedding, document
  and the metadata dictionary \<^verbatim>\<open>{"source": source_name, "type": source_type}\<close>. The
  embedding vectors are never inspected by the module, so their type is a parameter.
\<close>

record 'v chunk =
  chunk_id :: string
  embedding :: 'v
  document :: string
  meta_source :: string
  meta_type :: string

text \<open>
  An element of \<^verbatim>\<open>added_sources\<close>: the dictionary literal
  \<^verbatim>\<open>{"id": ..., "name": ..., "type": ...}\<close> of \<^verbatim>\<open>add_texts_to_chroma\<close>, the only place
  that writes an element.
\<close>

record source =
  src_id :: string
  src_name :: string
  src_type :: string

text \<open>The keys and values of that dictionary, as \<^verbatim>\<open>get_sources\<close> sends it out.\<close>

definition source_dict :: "source \<Rightarrow> (string \<times> string) list" where
  "source_dict s = [(''id'', src_id s), (''name'', src_name s), (''type'', src_type s)]"

record ChatMessage =
  role :: string
  content :: string

record ChatRequest =
  message :: string
  history :: "ChatMessage list"

text \<open>
  The module state. \<open>collection = None\<close> is Python's \<^verbatim>\<open>collection = None\<close>; a collection
  object is truthy whatever it holds, so \<^verbatim>\<open>if collection:\<close> is the test for \<open>Some\<close>.
\<close>

record 'v state =
  collection :: "'v chunk list option"
  added_sources :: "source list"

text \<open>
  Exceptions. \<open>HTTPException status detail\<close> is FastAPI's; \<open>Uncaught msg\<close> is any other
  exception that leaves the function (only \<^verbatim>\<open>add_texts_to_chroma\<close> lets one through:
  its call of \<^verbatim>\<open>collection.add\<close> is not inside a \<^verbatim>\<open>try\<close>).
\<close>

datatype error = HTTPException nat string | Uncaught string

text \<open>The outcome of \<^verbatim>\<open>requests.post\<close>, \<^verbatim>\<open>raise_for_status\<close> and \<^verbatim>\<open>response.json()\<close>.\<close>

datatype post_result =
    RequestException string
  | OtherException string
  | Json "string option"

text \<open>
  What lies outside the module during one request:
  \<^item> \<open>split_text\<close>: \<^verbatim>\<open>text_splitter.split_text\<close>;
  \<^item> \<open>embed\<close>: the sentence embedding of one text (\<^verbatim>\<open>embedding_model.encode\<close> maps it over
    a batch);
  \<^item> \<open>uuid4 k\<close>: the string of the \<open>k\<close>-th \<^verbatim>\<open>uuid.uuid4()\<close> drawn by the request;
  \<^item> \<open>chroma_raises k\<close>: whether the \<open>k\<close>-th call of a collection method made by the
    request raises, and the text of the exception;
  \<^item> \<open>distance\<close>: the distance Chroma ranks by;
  \<^item> \<open>post\<close>: the reply of the Ollama endpoint to a prompt.
\<close>

record 'v world =
  split_text :: "string \<Rightarrow> string list"
  embed :: "string \<Rightarrow> 'v"
  uuid4 :: "nat \<Rightarrow> string"
  chroma_raises :: "nat \<Rightarrow> string option"
  distance :: "'v \<Rightarrow> 'v \<Rightarrow> real"
  post :: "string \<Rightarrow> post_result"

subsection \<open>Python strings\<close>

text \<open>\<^verbatim>\<open>str.isspace\<close> on one code point below 256.\<close>

definition isspace :: "char \<Rightarrow> bool" where
  "isspace c = ((of_char c :: nat) \<in> {9, 10, 11, 12, 13, 28, 29, 30, 31, 32, 133, 160})"

definition strip :: "string \<Rightarrow> string" where
  "strip t = rev (dropWhile isspace (rev (dropWhile isspace t)))"

text \<open>\<^verbatim>\<open>sep.join(xs)\<close>.\<close>

fun join :: "string \<Rightarrow> string list \<Rightarrow> string" where
  "join sep [] = []"
| "join sep [x] = x"
| "join sep (x # y # ys) = x @ sep @ join sep (y # ys)"

subsection \<open>The Chroma collection\<close>

text \<open>
  The three collection methods the module calls. Each takes the outcome the world has
  fixed for this call; a call that raises leaves the records as they were.

  \<^verbatim>\<open>collection.add\<close> stores one record for each position of its four argument lists. The
  ids it is given are fresh \<^verbatim>\<open>uuid4\<close> strings; what Chroma does with an id it already
  holds is not part of the model.
\<close>

definition coll_add ::
  "string option \<Rightarrow> 'v chunk list \<Rightarrow> string list \<Rightarrow> 'v list \<Rightarrow> string list \<Rightarrow> (string \<times> string) list
     \<Rightarrow> string + 'v chunk list" where
  "coll_add raises recs ids embeddings documents metadatas =
     (case raises of
        Some e \<Rightarrow> Inl e
      | None \<Rightarrow>
          Inr (recs @ map (\<lambda>(i, v, d, (s, t)).
                 \<lparr>chunk_id = i, embedding = v, document = d, meta_source = s, meta_type = t\<rparr>)
               (zip ids (zip embeddings (zip documents metadatas)))))"

text \<open>\<^verbatim>\<open>collection.delete(where={"source": name})\<close>.\<close>

definition coll_delete :: "string option \<Rightarrow> 'v chunk list \<Rightarrow> string \<Rightarrow> string + 'v chunk list" where
  "coll_delete raises recs name =
     (case raises of
        Some e \<Rightarrow> Inl e
      | None \<Rightarrow> Inr (filter (\<lambda>c. meta_source c \<noteq> name) recs))"

text \<open>The \<open>n\<close> records nearest to one query embedding, nearest first.\<close>

definition nearest :: "('v \<Rightarrow> 'v \<Rightarrow> real) \<Rightarrow> 'v chunk list \<Rightarrow> nat \<Rightarrow> 'v \<Rightarrow> 'v chunk list" where
  "nearest dst recs n q = take n (sort_key (\<lambda>c. dst q (embedding c)) recs)"

text \<open>
  \<^verbatim>\<open>collection.query(query_embeddings=qs, n_results=n)\<close>; the value is the
  \<^verbatim>\<open>'documents'\<close> entry of the result: one list of documents for each query embedding.
\<close>

definition coll_query ::
  "string option \<Rightarrow> ('v \<Rightarrow> 'v \<Rightarrow> real) \<Rightarrow> 'v chunk list \<Rightarrow> 'v list \<Rightarrow> nat \<Rightarrow> string + string list list" where
  "coll_query raises dst recs qs n =
     (case raises of
        Some e \<Rightarrow> Inl e
      | None \<Rightarrow> Inr (map (\<lambda>q. map document (nearest dst recs n q)) qs))"

text \<open>\<^verbatim>\<open>embedding_model.encode(texts).tolist()\<close>.\<close>

definition encode :: "'v world \<Rightarrow> string list \<Rightarrow> 'v list" where
  "encode w texts = map (embed w) texts"

subsection \<open>The handlers\<close>

definition get_sources :: "'v state \<Rightarrow> source list" where
  "get_sources st = added_sources st"

text \<open>
  The loop of \<^verbatim>\<open>clear_all_sources\<close>: one \<^verbatim>\<open>collection.delete\<close> for each listed source; the
  \<open>k\<close>-th call of the request is the next one. The records reached when a call raises
  are returned with the exception: the earlier deletions have taken place.
\<close>

fun delete_each ::
  "(nat \<Rightarrow> string option) \<Rightarrow> nat \<Rightarrow> source list \<Rightarrow> 'v chunk list \<Rightarrow> 'v chunk list \<times> string option" where
  "delete_each raises k [] recs = (recs, None)"
| "delete_each raises k (s # ss) recs =
     (case coll_delete (raises k) recs (src_name s) of
        Inl e \<Rightarrow> (recs, Some e)
      | Inr recs' \<Rightarrow> delete_each raises (Suc k) ss recs')"

definition clear_all_sources :: "'v world \<Rightarrow> 'v state \<Rightarrow> 'v state \<times> (error + string \<times> string)" where
  "clear_all_sources w st =
     (case collection st of
        None \<Rightarrow> (st\<lparr>added_sources := []\<rparr>, Inr (''success'', ''Successfully cleared all sources''))
      | Some recs \<Rightarrow>
          (case delete_each (chroma_raises w) 0 (added_sources st) recs of
             (recs', Some e) \<Rightarrow>
               (st\<lparr>collection := Some recs'\<rparr>,
                Inl (HTTPException 500 (''Failed to clear vector db: '' @ e)))
           | (recs', None) \<Rightarrow>
               (st\<lparr>collection := Some recs', added_sources := []\<rparr>,
                Inr (''success'', ''Successfully cleared all sources''))))"

text \<open>\<^verbatim>\<open>next((s for s in added_sources if s["id"] == source_id), None)\<close>.\<close>

fun first_with_id :: "source list \<Rightarrow> string \<Rightarrow> source option" where
  "first_with_id [] source_id = None"
| "first_with_id (s # ss) source_id =
     (if src_id s = source_id then Some s else first_with_id ss source_id)"

definition delete_source :: "'v world \<Rightarrow> 'v state \<Rightarrow> string \<Rightarrow> 'v state \<times> (error + string \<times> string)" where
  "delete_source w st source_id =
     (case first_with_id (added_sources st) source_id of
        None \<Rightarrow> (st, Inl (HTTPException 404 ''Source not found.''))
      | Some source_to_delete \<Rightarrow>
          (let source_name = src_name source_to_delete;
               remaining = filter (\<lambda>s. src_id s \<noteq> source_id) (added_sources st);
               done = (''success'', ''Successfully deleted '' @ source_name)
           in case collection st of
                None \<Rightarrow> (st\<lparr>added_sources := remaining\<rparr>, Inr done)
              | Some recs \<Rightarrow>
                  (case coll_delete (chroma_raises w 0) recs source_name of
                     Inl e \<Rightarrow>
                       (st, Inl (HTTPException 500 (''Failed to delete from vector db: '' @ e)))
                   | Inr recs' \<Rightarrow>
                       (st\<lparr>collection := Some recs', added_sources := remaining\<rparr>, Inr done))))"

definition add_texts_to_chroma ::
  "'v world \<Rightarrow> 'v state \<Rightarrow> string \<Rightarrow> string \<Rightarrow> string \<Rightarrow> 'v state \<times> (error + nat)" where
  "add_texts_to_chroma w st text source_name source_type =
     (case collection st of
        None \<Rightarrow> (st, Inl (HTTPException 500 ''Chroma DB collection is not initialized.''))
      | Some recs \<Rightarrow>
          if strip text = [] then (st, Inl (HTTPException 400 ''No extractable text found.''))
          else
            let splits = split_text w text in
            if splits = [] then (st, Inl (HTTPException 400 ''Text couldn't be chunked.''))
            else
              let embeddings = encode w splits;
                  ids = map (uuid4 w) [0 ..< length splits];
                  metadatas = map (\<lambda>_. (source_name, source_type)) splits
              in case coll_add (chroma_raises w 0) recs ids embeddings splits metadatas of
                   Inl e \<Rightarrow> (st, Inl (Uncaught e))
                 | Inr recs' \<Rightarrow>
                     (st\<lparr>collection := Some recs',
                         added_sources := added_sources st @
                           [\<lparr>src_id = uuid4 w (length splits), src_name = source_name,
                             src_type = source_type\<rparr>]\<rparr>,
                      Inr (length splits)))"

text \<open>The separator and the template of \<^verbatim>\<open>chat\<close>.\<close>

definition separator :: string where
  "separator = ''\<newline>\<newline>---\<newline>\<newline>''"

definition context_text :: "string list list \<Rightarrow> string" where
  "context_text documents = (case documents of [] \<Rightarrow> [] | doc_list # _ \<Rightarrow> join separator doc_list)"

definition prompt :: "string \<Rightarrow> string \<Rightarrow> string" where
  "prompt ctx msg =
     ''You are an intelligent assistant. Use the following context documents to answer the user's question. If the context does not contain the answer, say you don't know based on the provided documents.\<newline>\<newline>Context:\<newline>''
     @ ctx @ ''\<newline>\<newline>User Question: '' @ msg @ ''\<newline>\<newline>Answer:''"

definition generate :: "'v world \<Rightarrow> string \<Rightarrow> error + string" where
  "generate w p =
     (case post w p of
        RequestException e \<Rightarrow>
          Inl (HTTPException 503
            (''Failed to connect to local Ollama (ensure it is running on port 11434): '' @ e))
      | OtherException e \<Rightarrow> Inl (HTTPException 500 e)
      | Json data \<Rightarrow>
          Inr (case data of None \<Rightarrow> ''No response generated'' | Some r \<Rightarrow> r))"

definition chat :: "'v world \<Rightarrow> 'v state \<Rightarrow> ChatRequest \<Rightarrow> 'v state \<times> (error + string)" where
  "chat w st req =
     (case collection st of
        None \<Rightarrow> (st, Inl (HTTPException 500 ''Chroma DB collection is not initialized.''))
      | Some recs \<Rightarrow>
          (let query_embedding = encode w [message req] in
           case coll_query (chroma_raises w 0) (distance w) recs query_embedding 5 of
             Inl e \<Rightarrow> (st, Inl (HTTPException 500 e))
           | Inr documents \<Rightarrow>
               (st, generate w (prompt (context_text documents) (message req)))))"

subsection \<open>What a chat request retrieves and sends\<close>

text \<open>
  The records behind the documents that the query of \<^verbatim>\<open>chat\<close> returns for a request
  (none when there is no collection), and the prompt built from them.
\<close>

definition retrieved :: "'v world \<Rightarrow> 'v state \<Rightarrow> ChatRequest \<Rightarrow> 'v chunk list" where
  "retrieved w st req =
     (case collection st of
        None \<Rightarrow> []
      | Some recs \<Rightarrow> nearest (distance w) recs 5 (embed w (message req)))"

definition grounded_prompt :: "'v world \<Rightarrow> 'v state \<Rightarrow> ChatRequest \<Rightarrow> string" where
  "grounded_prompt w st req =
     prompt (join separator (map document (retrieved w st req))) (message req)"

subsection \<open>Sequences of requests\<close>

text \<open>
  The routes that touch the state: \<open>Ingest\<close> stands for \<^verbatim>\<open>/api/upload\<close> and
  \<^verbatim>\<open>/api/scrape\<close> once the text is extracted (both end in \<^verbatim>\<open>add_texts_to_chroma\<close>),
  \<open>Delete\<close> for \<^verbatim>\<open>DELETE /api/sources/{source_id}\<close>, \<open>Clear\<close> for
  \<^verbatim>\<open>DELETE /api/sources\<close> and \<open>Chat\<close> for \<^verbatim>\<open>/api/chat\<close>. \<open>handle\<close> is the state a request
  leaves behind, \<open>run\<close> the state after a list of requests, each met by its own world.
\<close>

datatype request =
    Ingest string string string
  | Delete string
  | Clear
  | Chat ChatRequest

fun handle :: "'v world \<Rightarrow> 'v state \<Rightarrow> request \<Rightarrow> 'v state" where
  "handle w st (Ingest text source_name source_type) =
     fst (add_texts_to_chroma w st text source_name source_type)"
| "handle w st (Delete source_id) = fst (delete_source w st source_id)"
| "handle w st Clear = fst (clear_all_sources w st)"
| "handle w st (Chat req) = fst (chat w st req)"

fun run :: "'v state \<Rightarrow> ('v world \<times> request) list \<Rightarrow> 'v state" where
  "run st [] = st"
| "run st ((w, r) # rs) = run (handle w st r) rs"

fun ingests :: "string \<Rightarrow> request \<Rightarrow> bool" where
  "ingests name (Ingest text source_name source_type) = (source_name = name)"
| "ingests name r = False"

text \<open>The collection, if there is one, holds no record whose metadata source is \<open>name\<close>.\<close>

definition holds_none_of :: "string \<Rightarrow> 'v state \<Rightarrow> bool" where
  "holds_none_of name st =
     (case collection st of None \<Rightarrow> True | Some recs \<Rightarrow> name \<notin> meta_source ` set recs)"

subsection \<open>A small world for examples\<close>

text \<open>
  The splitter cuts at every line feed and drops empty pieces, the embedding of a text is its
  length, the \<open>k\<close>-th id is \<open>tag\<close> followed by \<open>k\<close> plus signs, no collection call raises,
  and the endpoint replies with the prompt it received.
\<close>

fun lines_of :: "string \<Rightarrow> string \<Rightarrow> string list" where
  "lines_of acc [] = (if acc = [] then [] else [rev acc])"
| "lines_of acc (c # cs) =
     (if c = CHR ''\<newline>'' then (if acc = [] then [] else [rev acc]) @ lines_of [] cs
      else lines_of (c # acc) cs)"

definition demo_world :: "string \<Rightarrow> nat world" where
  "demo_world tag =
     \<lparr>split_text = lines_of [],
      embed = length,
      uuid4 = (\<lambda>k. tag @ replicate k CHR ''+''),
      chroma_raises = (\<lambda>k. None),
      distance = (\<lambda>a b. \<bar>real a - real b\<bar>),
      post = (\<lambda>p. Json (Some p))\<rparr>"

definition empty_state :: "nat state" where
  "empty_state = \<lparr>collection = Some [], added_sources = []\<rparr>"

text \<open>
  The state of a process started without the Chroma credentials: no collection, nothing
  listed.
\<close>

definition unconfigured_state :: "nat state" where
  "unconfigured_state = \<lparr>collection = None, added_sources = []\<rparr>"

text \<open>States reached by ingesting into the empty state.\<close>

definition one_doc_state :: "nat state" where
  "one_doc_state =
     fst (add_texts_to_chroma (demo_world ''a'') empty_state ''hello\<newline>world!'' ''doc.txt'' ''file'')"

definition two_doc_state :: "nat state" where
  "two_doc_state =
     fst (add_texts_to_chroma (demo_world ''b'') one_doc_state ''notes'' ''http://x.org'' ''url'')"


text \<open>A world in which every call of a collection method raises.\<close>

definition failing_world :: "nat world" where
  "failing_world = (demo_world ''e'')\<lparr>chroma_raises := (\<lambda>k. Some ''timeout'')\<rparr>"

section \<open>Properties\<close>

subsection \<open>Auxiliary facts\<close>

lemma first_with_id_None: "first_with_id ss i = None \<longleftrightarrow> i \<notin> src_id ` set ss"
  by (induction ss) auto

lemma first_with_id_Some: "first_with_id ss i = Some s \<Longrightarrow> s \<in> set ss \<and> src_id s = i"
  by (induction ss) (auto split: if_splits)

lemma strip_empty_iff: "strip t = [] \<longleftrightarrow> (\<forall>c \<in> set t. isspace c)"
proof
  assume "strip t = []"
  then have "dropWhile isspace t = []"
    by (simp add: strip_def dropWhile_eq_Nil_conv)
       (metis dropWhile_eq_Nil_conv hd_dropWhile list.set_sel(1))
  then show "\<forall>c \<in> set t. isspace c" by (simp add: dropWhile_eq_Nil_conv)
next
  assume "\<forall>c \<in> set t. isspace c"
  then show "strip t = []" by (auto simp: strip_def dest: set_dropWhileD)
qed

lemma set_nearest: "set (nearest d recs n q) \<subseteq> set recs"
  by (auto simp: nearest_def dest: in_set_takeD)

lemma retrieved_subset:
  "collection st = Some recs \<Longrightarrow> set (retrieved w st req) \<subseteq> set recs"
  by (simp add: retrieved_def set_nearest)

lemma nearest_sorted: "sorted (map (\<lambda>c. d q (embedding c)) (nearest d recs n q))"
proof -
  have "sorted (take n (map (\<lambda>c. d q (embedding c)) (sort_key (\<lambda>c. d q (embedding c)) recs)))"
    by (rule sorted_wrt_take) (rule sorted_sort_key)
  then show ?thesis by (simp add: nearest_def take_map)
qed

lemma nearest_length: "length (nearest d recs n q) = min n (length recs)"
  by (simp add: nearest_def min.commute)

lemma nearest_all: "length recs \<le> n \<Longrightarrow> set (nearest d recs n q) = set recs"
  by (simp add: nearest_def)

lemma join_append:
  "xs \<noteq> [] \<Longrightarrow> ys \<noteq> [] \<Longrightarrow> join sep (xs @ ys) = join sep xs @ sep @ join sep ys"
proof (induction sep xs rule: join.induct)
  case (1 sep)
  then show ?case by simp
next
  case (2 sep x)
  then show ?case by (cases ys) simp_all
next
  case (3 sep x y ys')
  then show ?case by simp
qed

lemma chat_state: "fst (chat w st req) = st"
  by (simp add: chat_def Let_def split: option.splits sum.splits)

lemma chat_prompt:
  "collection st = Some recs \<Longrightarrow> chroma_raises w 0 = None \<Longrightarrow>
   chat w st req = (st, generate w (grounded_prompt w st req))"
  by (simp add: chat_def grounded_prompt_def retrieved_def coll_query_def encode_def
      context_text_def)

lemma delete_source_ok:
  assumes "delete_source w st source_id = (st', Inr r)"
  shows "\<exists>s. first_with_id (added_sources st) source_id = Some s \<and>
             r = (''success'', ''Successfully deleted '' @ src_name s) \<and>
             added_sources st' = filter (\<lambda>x. src_id x \<noteq> source_id) (added_sources st) \<and>
             collection st' =
               map_option (filter (\<lambda>c. meta_source c \<noteq> src_name s)) (collection st)"
  using assms
  by (auto simp: delete_source_def Let_def coll_delete_def split: option.splits sum.splits)

lemma add_texts_ok:
  assumes "add_texts_to_chroma w st text source_name source_type = (st', Inr n)"
  shows "\<exists>recs. collection st = Some recs \<and> strip text \<noteq> [] \<and> split_text w text \<noteq> [] \<and>
           chroma_raises w 0 = None \<and>
           n = length (split_text w text) \<and>
           collection st' = Some (recs @ map (\<lambda>(k, d).
               \<lparr>chunk_id = uuid4 w k, embedding = embed w d, document = d,
                meta_source = source_name, meta_type = source_type\<rparr>)
             (zip [0 ..< n] (split_text w text))) \<and>
           added_sources st' = added_sources st @
             [\<lparr>src_id = uuid4 w n, src_name = source_name, src_type = source_type\<rparr>]"
proof -
  have z: "map (\<lambda>(i, v, d, (s, t)).
                 \<lparr>chunk_id = i, embedding = v, document = d, meta_source = s, meta_type = t\<rparr>)
               (zip (map f [0 ..< length ds]) (zip (map g ds) (zip ds (map (\<lambda>_. (a, b)) ds))))
           = map (\<lambda>(k, d). \<lparr>chunk_id = f k, embedding = g d, document = d,
                meta_source = a, meta_type = b\<rparr>) (zip [0 ..< length ds] ds)"
    for f :: "nat \<Rightarrow> string" and g :: "string \<Rightarrow> 'a" and ds a b
    by (rule nth_equalityI) auto
  show ?thesis
    using assms
    by (auto simp: add_texts_to_chroma_def Let_def coll_add_def encode_def z
        split: option.splits if_splits sum.splits)
qed



lemma clear_all_sources_empty:
  assumes "added_sources st = []"
  shows "clear_all_sources w st = (st, Inr (''success'', ''Successfully cleared all sources''))"
  using assms by (cases st) (simp add: clear_all_sources_def split: option.splits)


text \<open>
  No request other than an ingestion under \<open>name\<close> brings a record of that name into
  the collection.
\<close>

lemma delete_each_subset: "set (fst (delete_each raises k ss recs)) \<subseteq> set recs"
proof (induction ss arbitrary: k recs)
  case Nil
  then show ?case by simp
next
  case (Cons s ss)
  show ?case
  proof (cases "raises k")
    case None
    with Cons.IH [of "Suc k" "filter (\<lambda>c. meta_source c \<noteq> src_name s) recs"]
    show ?thesis by (auto simp: coll_delete_def)
  next
    case (Some e)
    then show ?thesis by (simp add: coll_delete_def)
  qed
qed

lemma handle_holds_none_of:
  assumes "holds_none_of name st" and "\<not> ingests name r"
  shows "holds_none_of name (handle w st r)"
proof (cases r)
  case (Ingest body source_name source_type)
  with assms show ?thesis
    by (auto simp: holds_none_of_def add_texts_to_chroma_def Let_def coll_add_def
        split: option.splits sum.splits dest!: set_zip_rightD)
next
  case (Delete source_id)
  with assms(1) show ?thesis
    by (auto simp: holds_none_of_def delete_source_def Let_def coll_delete_def
        split: option.splits sum.splits)
next
  case Clear
  show ?thesis
  proof (cases "collection st")
    case None
    with Clear show ?thesis by (simp add: holds_none_of_def clear_all_sources_def)
  next
    case (Some recs)
    obtain recs' e where d: "delete_each (chroma_raises w) 0 (added_sources st) recs = (recs', e)"
      by (cases "delete_each (chroma_raises w) 0 (added_sources st) recs")
    with delete_each_subset [of "chroma_raises w" 0 "added_sources st" recs]
    have "set recs' \<subseteq> set recs" by simp
    with assms(1) Some d Clear show ?thesis
      by (cases e) (auto simp: holds_none_of_def clear_all_sources_def)
  qed
next
  case (Chat req)
  with assms(1) show ?thesis by (simp add: chat_state)
qed

lemma run_holds_none_of:
  "holds_none_of name st \<Longrightarrow> \<forall>(w, r) \<in> set rs. \<not> ingests name r \<Longrightarrow>
   holds_none_of name (run st rs)"
proof (induction rs arbitrary: st)
  case Nil
  then show ?case by simp
next
  case (Cons p rs)
  obtain w r where p: "p = (w, r)" by (cases p)
  with Cons.prems have "holds_none_of name (handle w st r)"
    by (simp add: handle_holds_none_of)
  with Cons.IH [of "handle w st r"] Cons.prems p show ?case by simp
qed

lemma retrieved_holds_none_of:
  "holds_none_of name st \<Longrightarrow> name \<notin> meta_source ` set (retrieved w st req)"
proof (cases "collection st")
  case None
  then show ?thesis by (simp add: retrieved_def)
next
  case (Some recs)
  assume "holds_none_of name st"
  with Some retrieved_subset [OF Some, of w req] show ?thesis
    by (auto simp: holds_none_of_def)
qed

lemma delete_source_holds_none_of:
  assumes "delete_source w st source_id = (st', Inr r)"
    and "first_with_id (added_sources st) source_id = Some s"
  shows "holds_none_of (src_name s) st'"
  using delete_source_ok [OF assms(1)] assms(2)
  by (cases "collection st") (auto simp: holds_none_of_def)

lemma join_concat: "join sep (d # ds) = d @ concat (map (\<lambda>x. sep @ x) ds)"
  by (induction ds arbitrary: d) simp_all

lemma retrieved_empty_iff:
  "collection st = Some recs \<Longrightarrow> retrieved w st req = [] \<longleftrightarrow> recs = []"
proof -
  have "sort_key f xs = [] \<longleftrightarrow> xs = []" for f :: "'a chunk \<Rightarrow> real" and xs
    by (metis length_0_conv length_sort)
  then show "collection st = Some recs \<Longrightarrow> retrieved w st req = [] \<longleftrightarrow> recs = []"
    by (simp add: retrieved_def nearest_def take_eq_Nil)
qed


text \<open>
  Without a collection and with an empty listing no request changes the state, so the
  listing stays empty for as long as there is no collection.
\<close>

lemma handle_unconfigured:
  assumes "collection st = None" and "added_sources st = []"
  shows "handle w st r = st"
proof (cases r)
  case (Ingest body source_name source_type)
  with assms show ?thesis by (simp add: add_texts_to_chroma_def)
next
  case (Delete source_id)
  with assms show ?thesis by (simp add: delete_source_def)
next
  case Clear
  with assms show ?thesis by (simp add: clear_all_sources_empty)
next
  case (Chat req)
  then show ?thesis by (simp add: chat_state)
qed

lemma run_unconfigured:
  "collection st = None \<Longrightarrow> added_sources st = [] \<Longrightarrow> run st rs = st"
proof (induction rs)
  case Nil
  then show ?case by simp
next
  case (Cons p rs)
  then show ?case by (cases p) (simp add: handle_unconfigured)
qed

lemma add_texts_500:
  assumes "add_texts_to_chroma w st body source_name source_type = (st', Inl (HTTPException 500 d))"
  shows "collection st = None"
  using assms
  by (auto simp: add_texts_to_chroma_def Let_def split: option.splits if_splits sum.splits)

text \<open>The example states, written out.\<close>

lemma one_doc_state_eq:
  "one_doc_state =
     \<lparr>collection = Some
        [\<lparr>chunk_id = ''a'', embedding = 5, document = ''hello'',
          meta_source = ''doc.txt'', meta_type = ''file''\<rparr>,
         \<lparr>chunk_id = ''a+'', embedding = 6, document = ''world!'',
          meta_source = ''doc.txt'', meta_type = ''file''\<rparr>],
      added_sources = [\<lparr>src_id = ''a++'', src_name = ''doc.txt'', src_type = ''file''\<rparr>]\<rparr>"
  by (simp add: one_doc_state_def demo_world_def empty_state_def add_texts_to_chroma_def
      strip_def isspace_def coll_add_def encode_def Let_def upt_rec numeral_2_eq_2)

lemma two_doc_state_eq:
  "two_doc_state =
     \<lparr>collection = Some
        [\<lparr>chunk_id = ''a'', embedding = 5, document = ''hello'',
          meta_source = ''doc.txt'', meta_type = ''file''\<rparr>,
         \<lparr>chunk_id = ''a+'', embedding = 6, document = ''world!'',
          meta_source = ''doc.txt'', meta_type = ''file''\<rparr>,
         \<lparr>chunk_id = ''b'', embedding = 5, document = ''notes'',
          meta_source = ''http://x.org'', meta_type = ''url''\<rparr>],
      added_sources =
        [\<lparr>src_id = ''a++'', src_name = ''doc.txt'', src_type = ''file''\<rparr>,
         \<lparr>src_id = ''b+'', src_name = ''http://x.org'', src_type = ''url''\<rparr>]\<rparr>"
  by (simp add: two_doc_state_def one_doc_state_eq demo_world_def add_texts_to_chroma_def
      strip_def isspace_def coll_add_def encode_def Let_def upt_rec)


lemma ingest_one_doc:
  "add_texts_to_chroma (demo_world ''a'') empty_state ''hello\<newline>world!'' ''doc.txt'' ''file'' =
     (one_doc_state, Inr 2)"
  by (simp add: one_doc_state_eq)
     (simp add: demo_world_def empty_state_def add_texts_to_chroma_def
      strip_def isspace_def coll_add_def encode_def Let_def upt_rec numeral_2_eq_2)

lemma retrieved_two_doc:
  "retrieved (demo_world ''d'') two_doc_state \<lparr>message = ''hello'', history = []\<rparr> =
     [\<lparr>chunk_id = ''a'', embedding = 5, document = ''hello'',
          meta_source = ''doc.txt'', meta_type = ''file''\<rparr>,
      \<lparr>chunk_id = ''b'', embedding = 5, document = ''notes'',
          meta_source = ''http://x.org'', meta_type = ''url''\<rparr>,
      \<lparr>chunk_id = ''a+'', embedding = 6, document = ''world!'',
          meta_source = ''doc.txt'', meta_type = ''file''\<rparr>]"
  by (simp add: retrieved_def two_doc_state_eq demo_world_def nearest_def)

subsection \<open>Deleting one source\<close>



text \<open>
  The records stay away: after any later requests, none of them an ingestion under the
  deleted source's name, a chat request still retrieves no record of that name.
\<close>

lemma delete_source_stays_purged:
  assumes "delete_source w st source_id = (st', Inr r)"
    and "first_with_id (added_sources st) source_id = Some s"
    and "\<forall>(w, r) \<in> set rs. \<not> ingests (src_name s) r"
  shows "src_name s \<notin> meta_source ` set (retrieved w' (run st' rs) req)"
  by (rule retrieved_holds_none_of, rule run_holds_none_of,
      rule delete_source_holds_none_of [OF assms(1,2)], rule assms(3))



text \<open>
  Claim C7. An id that no listed source has: \<^verbatim>\<open>delete_source\<close> raises the 404
  \<^verbatim>\<open>Source not found.\<close> and leaves the listing and the collection as they were. The
  only other exception of \<^verbatim>\<open>delete_source\<close>, raised for a listed id when the collection
  call fails, has status 500 and leaves the state as it was too.
\<close>

theorem delete_unknown_source:
  assumes "source_id \<notin> src_id ` set (added_sources st)"
  shows "delete_source w st source_id = (st, Inl (HTTPException 404 ''Source not found.'')) \<and>
         (\<forall>w' st' i e. i \<in> src_id ` set (added_sources st') \<longrightarrow>
              snd (delete_source w' st' i) = Inl e \<longrightarrow>
              (\<exists>m. e = HTTPException 500 (''Failed to delete from vector db: '' @ m)) \<and>
              fst (delete_source w' st' i) = st')"
proof -
  from assms have "first_with_id (added_sources st) source_id = None"
    by (simp add: first_with_id_None)
  then have a: "delete_source w st source_id = (st, Inl (HTTPException 404 ''Source not found.''))"
    by (simp add: delete_source_def)
  have b: "(\<exists>m. e = HTTPException 500 (''Failed to delete from vector db: '' @ m)) \<and>
           fst (delete_source w' st' i) = st'"
    if "i \<in> src_id ` set (added_sources st')" and "snd (delete_source w' st' i) = Inl e"
    for w' :: "'b world" and st' i e
  proof -
    from that(1) obtain s where "first_with_id (added_sources st') i = Some s"
      by (cases "first_with_id (added_sources st') i") (simp_all add: first_with_id_None)
    with that(2) show ?thesis
      by (auto simp: delete_source_def Let_def coll_delete_def split: option.splits)
  qed
  from a b show ?thesis by blast
qed

theorem delete_unknown_source_witness:
  "''nope'' \<notin> src_id ` set (added_sources two_doc_state) \<and>
   delete_source (demo_world ''c'') two_doc_state ''nope'' =
     (two_doc_state, Inl (HTTPException 404 ''Source not found.'')) \<and>
   delete_source failing_world two_doc_state ''a++'' =
     (two_doc_state, Inl (HTTPException 500 ''Failed to delete from vector db: timeout''))"
proof -
  have h: "''nope'' \<notin> src_id ` set (added_sources two_doc_state)"
    by (simp add: two_doc_state_eq)
  have f: "delete_source failing_world two_doc_state ''a++'' =
     (two_doc_state, Inl (HTTPException 500 ''Failed to delete from vector db: timeout''))"
    by (simp add: delete_source_def two_doc_state_eq failing_world_def demo_world_def
        coll_delete_def)
  from delete_unknown_source [OF h, of "demo_world ''c''"]
  have "delete_source (demo_world ''c'') two_doc_state ''nope'' =
     (two_doc_state, Inl (HTTPException 404 ''Source not found.''))"
    by (rule conjunct1)
  with h f show ?thesis by blast
qed

subsection \<open>Deleting all sources\<close>




subsection \<open>Without a collection\<close>

text \<open>
  Claim C2, as the code has it. Without a collection \<^verbatim>\<open>add_texts_to_chroma\<close> and
  \<^verbatim>\<open>chat\<close> raise the 500 \<^verbatim>\<open>Chroma DB collection is not initialized.\<close> and change nothing.
  The listing is then empty and stays so, and the two deleting handlers do not report
  the missing collection: \<^verbatim>\<open>delete_source\<close> raises its 404 and \<^verbatim>\<open>clear_all_sources\<close>
  returns its success message, both leaving the state as it was. A 500 of
  \<^verbatim>\<open>add_texts_to_chroma\<close> always means that there is no collection.
\<close>

theorem uninitialized_store:
  assumes "collection st = None"
  shows "add_texts_to_chroma w st text source_name source_type =
           (st, Inl (HTTPException 500 ''Chroma DB collection is not initialized.'')) \<and>
         chat w st req =
           (st, Inl (HTTPException 500 ''Chroma DB collection is not initialized.'')) \<and>
         (added_sources st = [] \<longrightarrow>
            delete_source w st source_id = (st, Inl (HTTPException 404 ''Source not found.'')) \<and>
            clear_all_sources w st =
              (st, Inr (''success'', ''Successfully cleared all sources'')) \<and>
            run st rs = st) \<and>
         (\<forall>w' st' body name' type' st'' d.
            add_texts_to_chroma w' st' body name' type' = (st'', Inl (HTTPException 500 d)) \<longrightarrow>
            collection st' = None)"
proof -
  from assms have a: "add_texts_to_chroma w st text source_name source_type =
           (st, Inl (HTTPException 500 ''Chroma DB collection is not initialized.''))"
    by (simp add: add_texts_to_chroma_def)
  from assms have c: "chat w st req =
           (st, Inl (HTTPException 500 ''Chroma DB collection is not initialized.''))"
    by (simp add: chat_def)
  have e: "delete_source w st source_id = (st, Inl (HTTPException 404 ''Source not found.'')) \<and>
            clear_all_sources w st =
              (st, Inr (''success'', ''Successfully cleared all sources'')) \<and>
            run st rs = st" if "added_sources st = []"
    using that assms by (simp add: delete_source_def clear_all_sources_empty run_unconfigured)
  have d: "collection st' = None"
    if "add_texts_to_chroma w' st' body name' type' = (st'', Inl (HTTPException 500 d))"
    for w' :: "'b world" and st' body name' type' st'' d
    using that by (rule add_texts_500)
  from a c e d show ?thesis by blast
qed

theorem uninitialized_store_witness:
  "collection unconfigured_state = None \<and> added_sources unconfigured_state = [] \<and>
   add_texts_to_chroma (demo_world ''a'') unconfigured_state ''hello'' ''x.txt'' ''file'' =
     (unconfigured_state, Inl (HTTPException 500 ''Chroma DB collection is not initialized.'')) \<and>
   chat (demo_world ''a'') unconfigured_state \<lparr>message = ''hi'', history = []\<rparr> =
     (unconfigured_state, Inl (HTTPException 500 ''Chroma DB collection is not initialized.'')) \<and>
   delete_source (demo_world ''a'') unconfigured_state ''s1'' =
     (unconfigured_state, Inl (HTTPException 404 ''Source not found.'')) \<and>
   clear_all_sources (demo_world ''a'') unconfigured_state =
     (unconfigured_state, Inr (''success'', ''Successfully cleared all sources'')) \<and>
   run unconfigured_state
     [(demo_world ''a'', Ingest ''hello'' ''x.txt'' ''file''), (demo_world ''b'', Delete ''a+''),
      (demo_world ''c'', Clear)] = unconfigured_state"
proof -
  have h: "collection unconfigured_state = None" by (simp add: unconfigured_state_def)
  have e: "added_sources unconfigured_state = []" by (simp add: unconfigured_state_def)
  from uninitialized_store [OF h, of "demo_world ''a''" "''hello''" "''x.txt''" "''file''"
        "\<lparr>message = ''hi'', history = []\<rparr>" "''s1''"
        "[(demo_world ''a'', Ingest ''hello'' ''x.txt'' ''file''), (demo_world ''b'', Delete ''a+''),
          (demo_world ''c'', Clear)]"] h e
  show ?thesis by blast
qed

text \<open>
  Claim C2 as stated fails: in the state of a process without credentials,
  \<^verbatim>\<open>delete_source\<close> raises the 404 and \<^verbatim>\<open>clear_all_sources\<close> returns normally; neither
  reports the missing collection.
\<close>

theorem unconfigured_delete_not_unavailable:
  "collection unconfigured_state = None \<and>
   delete_source (demo_world ''c'') unconfigured_state ''s1'' =
     (unconfigured_state, Inl (HTTPException 404 ''Source not found.'')) \<and>
   clear_all_sources (demo_world ''c'') unconfigured_state =
     (unconfigured_state, Inr (''success'', ''Successfully cleared all sources''))"
  by (simp add: delete_source_def clear_all_sources_def unconfigured_state_def)

subsection \<open>Ingestion\<close>

text \<open>
  Claim C3, as the code has it. A text that \<^verbatim>\<open>strip\<close> empties (every character is white
  space) is never ingested and the state stays as it was; the exception is the 400
  \<^verbatim>\<open>No extractable text found.\<close> when there is a collection, and the 500 of the missing
  collection, which is tested first, when there is none.
\<close>

theorem empty_text_rejected:
  assumes "strip text = []"
  shows "fst (add_texts_to_chroma w st text source_name source_type) = st \<and>
         (collection st \<noteq> None \<longrightarrow>
            snd (add_texts_to_chroma w st text source_name source_type) =
              Inl (HTTPException 400 ''No extractable text found.'')) \<and>
         (collection st = None \<longrightarrow>
            snd (add_texts_to_chroma w st text source_name source_type) =
              Inl (HTTPException 500 ''Chroma DB collection is not initialized.''))"
  using assms by (auto simp: add_texts_to_chroma_def split: option.splits)

theorem empty_text_rejected_witness:
  "strip [] = [] \<and> strip '' \<newline> '' = [] \<and>
   add_texts_to_chroma (demo_world ''a'') empty_state [] ''empty.txt'' ''file'' =
     (empty_state, Inl (HTTPException 400 ''No extractable text found.'')) \<and>
   add_texts_to_chroma (demo_world ''a'') one_doc_state '' \<newline> '' ''empty.txt'' ''file'' =
     (one_doc_state, Inl (HTTPException 400 ''No extractable text found.''))"
proof -
  have h1: "strip [] = []" by (simp add: strip_def)
  have h2: "strip '' \<newline> '' = []" by (simp add: strip_def isspace_def)
  have c1: "collection empty_state \<noteq> None" by (simp add: empty_state_def)
  have c2: "collection one_doc_state \<noteq> None" by (simp add: one_doc_state_eq)
  from empty_text_rejected [OF h1, of "demo_world ''a''" empty_state "''empty.txt''" "''file''"]
       empty_text_rejected [OF h2, of "demo_world ''a''" one_doc_state "''empty.txt''" "''file''"]
       h1 h2 c1 c2
  show ?thesis by (simp add: prod_eq_iff)
qed

text \<open>
  Claim C3 as stated fails: without a collection the call of the claim,
  \<^verbatim>\<open>("", "empty.txt", "file")\<close>, raises the 500 of the missing collection, not the 400.
\<close>

theorem empty_text_offline:
  "add_texts_to_chroma (demo_world ''a'') unconfigured_state [] ''empty.txt'' ''file'' =
     (unconfigured_state, Inl (HTTPException 500 ''Chroma DB collection is not initialized.''))"
  by (simp add: add_texts_to_chroma_def unconfigured_state_def)

text \<open>
  Claim C4. When \<^verbatim>\<open>add_texts_to_chroma\<close> returns \<open>n\<close>, then \<open>n\<close> is the number of pieces the
  splitter made of the text, \<open>n\<close> is at least 1, the collection has grown by exactly \<open>n\<close>
  records, whose documents are those pieces in order and whose metadata carry the name
  and type given, and the listing has grown at its end by one entry of that name and type.
\<close>

theorem ingest_returns_chunk_count:
  assumes "add_texts_to_chroma w st text source_name source_type = (st', Inr n)"
  shows "n = length (split_text w text) \<and> 1 \<le> n \<and>
         (\<exists>recs new. collection st = Some recs \<and> collection st' = Some (recs @ new) \<and>
            length new = n \<and> map document new = split_text w text \<and>
            (\<forall>c \<in> set new. meta_source c = source_name \<and> meta_type c = source_type)) \<and>
         (\<exists>i. added_sources st' = added_sources st @
            [\<lparr>src_id = i, src_name = source_name, src_type = source_type\<rparr>])"
proof -
  from add_texts_ok [OF assms] obtain recs where
    c: "collection st = Some recs" and ne: "split_text w text \<noteq> []"
    and n: "n = length (split_text w text)"
    and c': "collection st' = Some (recs @ map (\<lambda>(k, d).
               \<lparr>chunk_id = uuid4 w k, embedding = embed w d, document = d,
                meta_source = source_name, meta_type = source_type\<rparr>)
             (zip [0 ..< n] (split_text w text)))"
    and a: "added_sources st' = added_sources st @
             [\<lparr>src_id = uuid4 w n, src_name = source_name, src_type = source_type\<rparr>]"
    by blast
  let ?new = "map (\<lambda>(k, d).
               \<lparr>chunk_id = uuid4 w k, embedding = embed w d, document = d,
                meta_source = source_name, meta_type = source_type\<rparr>)
             (zip [0 ..< n] (split_text w text))"
  have l: "length ?new = n" by (simp add: n)
  have d: "map document ?new = split_text w text"
    by (rule nth_equalityI) (simp_all add: n)
  have m: "\<forall>c \<in> set ?new. meta_source c = source_name \<and> meta_type c = source_type"
    by auto
  from ne n have "1 \<le> n" by (cases "split_text w text") simp_all
  with n c c' l d m a show ?thesis by blast
qed

theorem ingest_returns_chunk_count_witness:
  "add_texts_to_chroma (demo_world ''a'') empty_state ''hello\<newline>world!'' ''doc.txt'' ''file'' =
     (one_doc_state, Inr 2) \<and>
   (2::nat) = length (split_text (demo_world ''a'') ''hello\<newline>world!'') \<and>
   (\<exists>i. added_sources one_doc_state = added_sources empty_state @
            [\<lparr>src_id = i, src_name = ''doc.txt'', src_type = ''file''\<rparr>])"
  using ingest_one_doc ingest_returns_chunk_count [OF ingest_one_doc] by simp

text \<open>
  Claim C5, as the code has it. After \<^verbatim>\<open>doc.txt\<close> of type \<^verbatim>\<open>file\<close> is ingested with an empty
  listing, \<^verbatim>\<open>get_sources\<close> returns exactly one entry; its name is \<^verbatim>\<open>doc.txt\<close>, its type is
  \<^verbatim>\<open>file\<close> and its keys are \<^verbatim>\<open>id\<close>, \<^verbatim>\<open>name\<close> and \<^verbatim>\<open>type\<close>. The number of chunks is the
  value that the ingestion returned; no entry records it.
\<close>

theorem ingest_then_list:
  assumes "added_sources st = []"
    and "add_texts_to_chroma w st text ''doc.txt'' ''file'' = (st', Inr n)"
  shows "\<exists>e. get_sources st' = [e] \<and> src_name e = ''doc.txt'' \<and> src_type e = ''file'' \<and>
             map fst (source_dict e) = [''id'', ''name'', ''type''] \<and>
             n = length (split_text w text)"
  using add_texts_ok [OF assms(2)] assms(1) by (auto simp: get_sources_def source_dict_def)

theorem ingest_then_list_witness:
  "added_sources empty_state = [] \<and>
   (\<exists>e. get_sources one_doc_state = [e] \<and> src_name e = ''doc.txt'' \<and> src_type e = ''file'' \<and>
             map fst (source_dict e) = [''id'', ''name'', ''type''] \<and>
             (2::nat) = length (split_text (demo_world ''a'') ''hello\<newline>world!''))"
proof -
  have h: "added_sources empty_state = []" by (simp add: empty_state_def)
  from h ingest_then_list [OF h ingest_one_doc] show ?thesis by simp
qed

text \<open>
  Claim C5 as stated fails: the one entry listed after the ingestion is the dictionary
  with the keys \<^verbatim>\<open>id\<close>, \<^verbatim>\<open>name\<close> and \<^verbatim>\<open>type\<close>; it has no \<^verbatim>\<open>chunk_count\<close>.
\<close>

theorem listing_has_no_chunk_count:
  "get_sources one_doc_state = [\<lparr>src_id = ''a++'', src_name = ''doc.txt'', src_type = ''file''\<rparr>] \<and>
   source_dict \<lparr>src_id = ''a++'', src_name = ''doc.txt'', src_type = ''file''\<rparr> =
     [(''id'', ''a++''), (''name'', ''doc.txt''), (''type'', ''file'')] \<and>
   map_of (source_dict \<lparr>src_id = ''a++'', src_name = ''doc.txt'', src_type = ''file''\<rparr>)
     ''chunk_count'' = None"
  by (simp add: get_sources_def one_doc_state_eq source_dict_def)

subsection \<open>Answering\<close>

text \<open>
  Claim C6. With a collection whose query does not raise, \<^verbatim>\<open>chat\<close> posts one prompt and
  turns the reply into its outcome. The prompt is the fixed instruction, then the context,
  then the question, then \<^verbatim>\<open>Answer:\<close>; the context is the documents of the retrieved
  records in the order of retrieval (nearest first, five at most), each but the first
  preceded by the separator: two line feeds, three hyphens, two line feeds. Nothing is
  retrieved exactly when the collection is empty; the context is then the empty string,
  the prompt is still built and posted, and a reply of the endpoint is returned.
\<close>

theorem chat_context:
  assumes "collection st = Some recs" and "chroma_raises w 0 = None"
  shows "chat w st req =
           (st, case post w (grounded_prompt w st req) of
                  RequestException e \<Rightarrow>
                    Inl (HTTPException 503
                      (''Failed to connect to local Ollama (ensure it is running on port 11434): '' @ e))
                | OtherException e \<Rightarrow> Inl (HTTPException 500 e)
                | Json data \<Rightarrow>
                    Inr (case data of None \<Rightarrow> ''No response generated'' | Some r \<Rightarrow> r)) \<and>
         grounded_prompt w st req =
           ''You are an intelligent assistant. Use the following context documents to answer the user's question. If the context does not contain the answer, say you don't know based on the provided documents.\<newline>\<newline>Context:\<newline>''
           @ (case map document (retrieved w st req) of
                [] \<Rightarrow> []
              | d # ds \<Rightarrow> d @ concat (map (\<lambda>x. ''\<newline>\<newline>---\<newline>\<newline>'' @ x) ds))
           @ ''\<newline>\<newline>User Question: '' @ message req @ ''\<newline>\<newline>Answer:'' \<and>
         retrieved w st req =
           take 5 (sort_key (\<lambda>c. distance w (embed w (message req)) (embedding c)) recs) \<and>
         sorted (map (\<lambda>c. distance w (embed w (message req)) (embedding c))
                   (retrieved w st req)) \<and>
         (retrieved w st req = [] \<longleftrightarrow> recs = []) \<and>
         (retrieved w st req = [] \<longrightarrow>
            grounded_prompt w st req =
              ''You are an intelligent assistant. Use the following context documents to answer the user's question. If the context does not contain the answer, say you don't know based on the provided documents.\<newline>\<newline>Context:\<newline>\<newline>\<newline>User Question: ''
              @ message req @ ''\<newline>\<newline>Answer:'' \<and>
            (\<forall>d. post w (grounded_prompt w st req) = Json d \<longrightarrow>
                 snd (chat w st req) =
                   Inr (case d of None \<Rightarrow> ''No response generated'' | Some r \<Rightarrow> r)))"
proof -
  have c: "chat w st req =
           (st, case post w (grounded_prompt w st req) of
                  RequestException e \<Rightarrow>
                    Inl (HTTPException 503
                      (''Failed to connect to local Ollama (ensure it is running on port 11434): '' @ e))
                | OtherException e \<Rightarrow> Inl (HTTPException 500 e)
                | Json data \<Rightarrow>
                    Inr (case data of None \<Rightarrow> ''No response generated'' | Some r \<Rightarrow> r))"
    using chat_prompt [OF assms] by (simp add: generate_def)
  have j: "join separator ds =
             (case ds of [] \<Rightarrow> []
              | d # ds' \<Rightarrow> d @ concat (map (\<lambda>x. ''\<newline>\<newline>---\<newline>\<newline>'' @ x) ds'))" for ds
    by (cases ds) (simp_all only: join_concat separator_def list.case join.simps)
  have p: "grounded_prompt w st req =
           ''You are an intelligent assistant. Use the following context documents to answer the user's question. If the context does not contain the answer, say you don't know based on the provided documents.\<newline>\<newline>Context:\<newline>''
           @ (case map document (retrieved w st req) of
                [] \<Rightarrow> []
              | d # ds \<Rightarrow> d @ concat (map (\<lambda>x. ''\<newline>\<newline>---\<newline>\<newline>'' @ x) ds))
           @ ''\<newline>\<newline>User Question: '' @ message req @ ''\<newline>\<newline>Answer:''"
    unfolding grounded_prompt_def prompt_def j ..
  have r: "retrieved w st req =
           take 5 (sort_key (\<lambda>c. distance w (embed w (message req)) (embedding c)) recs)"
    using assms(1) by (simp add: retrieved_def nearest_def)
  have s: "sorted (map (\<lambda>c. distance w (embed w (message req)) (embedding c))
                   (retrieved w st req))"
    using assms(1) by (simp add: retrieved_def nearest_sorted)
  have e: "retrieved w st req = [] \<longleftrightarrow> recs = []"
    using assms(1) by (rule retrieved_empty_iff)
  have n: "grounded_prompt w st req =
              ''You are an intelligent assistant. Use the following context documents to answer the user's question. If the context does not contain the answer, say you don't know based on the provided documents.\<newline>\<newline>Context:\<newline>\<newline>\<newline>User Question: ''
              @ message req @ ''\<newline>\<newline>Answer:'' \<and>
            (\<forall>d. post w (grounded_prompt w st req) = Json d \<longrightarrow>
                 snd (chat w st req) =
                   Inr (case d of None \<Rightarrow> ''No response generated'' | Some r \<Rightarrow> r))"
    if "retrieved w st req = []"
  proof
    from that show "grounded_prompt w st req =
              ''You are an intelligent assistant. Use the following context documents to answer the user's question. If the context does not contain the answer, say you don't know based on the provided documents.\<newline>\<newline>Context:\<newline>\<newline>\<newline>User Question: ''
              @ message req @ ''\<newline>\<newline>Answer:''"
      by (simp add: p)
    show "\<forall>d. post w (grounded_prompt w st req) = Json d \<longrightarrow>
                 snd (chat w st req) =
                   Inr (case d of None \<Rightarrow> ''No response generated'' | Some r \<Rightarrow> r)"
      by (simp add: c)
  qed
  from c p r s e n show ?thesis by blast
qed

theorem chat_context_witness:
  "collection two_doc_state \<noteq> None \<and> chroma_raises (demo_world ''d'') 0 = None \<and>
   chat (demo_world ''d'') two_doc_state \<lparr>message = ''hello'', history = []\<rparr> =
     (two_doc_state, Inr
        ''You are an intelligent assistant. Use the following context documents to answer the user's question. If the context does not contain the answer, say you don't know based on the provided documents.\<newline>\<newline>Context:\<newline>hello\<newline>\<newline>---\<newline>\<newline>notes\<newline>\<newline>---\<newline>\<newline>world!\<newline>\<newline>User Question: hello\<newline>\<newline>Answer:'') \<and>
   chat (demo_world ''d'') empty_state \<lparr>message = ''hello'', history = []\<rparr> =
     (empty_state, Inr
        ''You are an intelligent assistant. Use the following context documents to answer the user's question. If the context does not contain the answer, say you don't know based on the provided documents.\<newline>\<newline>Context:\<newline>\<newline>\<newline>User Question: hello\<newline>\<newline>Answer:'')"
proof -
  let ?req = "\<lparr>message = ''hello'', history = []\<rparr>"
  have h1: "collection two_doc_state = Some
        [\<lparr>chunk_id = ''a'', embedding = 5, document = ''hello'',
          meta_source = ''doc.txt'', meta_type = ''file''\<rparr>,
         \<lparr>chunk_id = ''a+'', embedding = 6, document = ''world!'',
          meta_source = ''doc.txt'', meta_type = ''file''\<rparr>,
         \<lparr>chunk_id = ''b'', embedding = 5, document = ''notes'',
          meta_source = ''http://x.org'', meta_type = ''url''\<rparr>]"
    by (simp add: two_doc_state_eq)
  have h2: "chroma_raises (demo_world ''d'') 0 = None" by (simp add: demo_world_def)
  have h3: "collection empty_state = Some []" by (simp add: empty_state_def)
  have g: "post (demo_world ''d'') p = Json (Some p)" for p
    by (simp add: demo_world_def)
  have e: "retrieved (demo_world ''d'') empty_state ?req = []"
    by (simp add: retrieved_def empty_state_def nearest_def)
  from chat_context [OF h1 h2, of ?req] have
    "chat (demo_world ''d'') two_doc_state ?req =
       (two_doc_state, Inr (grounded_prompt (demo_world ''d'') two_doc_state ?req))"
    and "grounded_prompt (demo_world ''d'') two_doc_state ?req =
      ''You are an intelligent assistant. Use the following context documents to answer the user's question. If the context does not contain the answer, say you don't know based on the provided documents.\<newline>\<newline>Context:\<newline>hello\<newline>\<newline>---\<newline>\<newline>notes\<newline>\<newline>---\<newline>\<newline>world!\<newline>\<newline>User Question: hello\<newline>\<newline>Answer:''"
    by (simp_all add: g retrieved_two_doc)
  then have a: "chat (demo_world ''d'') two_doc_state ?req =
     (two_doc_state, Inr
        ''You are an intelligent assistant. Use the following context documents to answer the user's question. If the context does not contain the answer, say you don't know based on the provided documents.\<newline>\<newline>Context:\<newline>hello\<newline>\<newline>---\<newline>\<newline>notes\<newline>\<newline>---\<newline>\<newline>world!\<newline>\<newline>User Question: hello\<newline>\<newline>Answer:'')"
    by simp
  from chat_context [OF h3 h2, of ?req] have
    "chat (demo_world ''d'') empty_state ?req =
       (empty_state, Inr (grounded_prompt (demo_world ''d'') empty_state ?req))"
    and "grounded_prompt (demo_world ''d'') empty_state ?req =
      ''You are an intelligent assistant. Use the following context documents to answer the user's question. If the context does not contain the answer, say you don't know based on the provided documents.\<newline>\<newline>Context:\<newline>\<newline>\<newline>User Question: hello\<newline>\<newline>Answer:''"
    by (simp_all add: g e)
  then have b: "chat (demo_world ''d'') empty_state ?req =
     (empty_state, Inr
        ''You are an intelligent assistant. Use the following context documents to answer the user's question. If the context does not contain the answer, say you don't know based on the provided documents.\<newline>\<newline>Context:\<newline>\<newline>\<newline>User Question: hello\<newline>\<newline>Answer:'')"
    by simp
  from h1 h2 a b show ?thesis by simp
qed

text \<open>
  Claim C10. Two chat requests with the same message, answered in the same state and
  world, retrieve the same records, build the same prompt and have the same outcome,
  whatever their histories are.
\<close>

theorem chat_ignores_history:
  assumes "message r1 = message r2"
  shows "retrieved w st r1 = retrieved w st r2 \<and>
         grounded_prompt w st r1 = grounded_prompt w st r2 \<and>
         chat w st r1 = chat w st r2"
  unfolding retrieved_def grounded_prompt_def chat_def assms by simp

theorem chat_ignores_history_witness:
  "message \<lparr>message = ''hello'', history = []\<rparr> =
     message \<lparr>message = ''hello'', history = [\<lparr>role = ''user'', content = ''notes''\<rparr>]\<rparr> \<and>
   chat (demo_world ''d'') two_doc_state \<lparr>message = ''hello'', history = []\<rparr> =
     chat (demo_world ''d'') two_doc_state
       \<lparr>message = ''hello'', history = [\<lparr>role = ''user'', content = ''notes''\<rparr>]\<rparr>"
proof -
  have h: "message \<lparr>message = ''hello'', history = []\<rparr> =
     message \<lparr>message = ''hello'', history = [\<lparr>role = ''user'', content = ''notes''\<rparr>]\<rparr>"
    by simp
  from h chat_ignores_history [OF h, of "demo_world ''d''" two_doc_state] show ?thesis by blast
qed

end
